theory Spec2Isabelle
  imports Main "HOL-Library.Word" "HOL-Library.Sublist"
begin

section \<open>GraphQL schema introspection scripts\<close>

text \<open>
  The repository holds two scripts, \<^verbatim>\<open>graphql_schema.py\<close> and
  \<^verbatim>\<open>graphql_schema2.py\<close>. Each posts an introspection query to a GraphQL
  endpoint, checks the decoded answer for an \<^verbatim>\<open>errors\<close> key, hands the
  \<^verbatim>\<open>data\<close> payload to the library's \<^verbatim>\<open>print_schema\<close> and writes the
  text to \<^verbatim>\<open>schema.graphql\<close>.

  Python exceptions are values of the type \<open>error\<close>; a function that may raise
  returns \<open>error + 'a\<close> with \<open>Inl\<close> for the raised exception. Effects (the request
  sent, the file opened, written and closed, the line printed) act on an explicit
  \<open>world\<close> that is passed in and returned.
\<close>

subsection \<open>Values decoded from JSON\<close>

text \<open>
  What \<^verbatim>\<open>response.json()\<close> gives back: \<^verbatim>\<open>None\<close>, a bool, an int, a
  float (kept as its 64 bits), a str, a list or a dict with string keys. A dict is an
  association list in insertion order; lookup is \<open>map_of\<close>.
\<close>

datatype json =
    JNull
  | JBool bool
  | JInt int
  | JFloat "64 word"
  | JString string
  | JArray "json list"
  | JObject "(string \<times> json) list"

datatype error =
    RequestException
  | JSONDecodeError
  | Exception json
  | KeyError string
  | TypeError
  | GraphQLError
  | OSError

subsection \<open>The outside world\<close>

record response =
  status_code :: int
  content :: string

text \<open>
  The environment of one run. The library and the operating system are not part of
  the repository, so what they answer is a parameter:
  \<^item> \<open>graphql_introspection_query\<close>: the constant \<^verbatim>\<open>introspection_query\<close> that
    \<^verbatim>\<open>graphql_schema.py\<close> imports from the \<^verbatim>\<open>graphql\<close> package;
  \<^item> \<open>requests_post url body\<close>: what \<^verbatim>\<open>requests.post(url, json=body)\<close> does,
    raising or returning a response of any status;
  \<^item> \<open>json_loads\<close>: the decoder behind \<^verbatim>\<open>response.json()\<close>, \<open>None\<close> when
    the body is not valid JSON;
  \<^item> \<open>print_schema\<close>: the library's SDL printer;
  \<^item> \<open>open_fails path\<close>: whether \<^verbatim>\<open>open(path, 'w')\<close> raises;
  \<^item> \<open>write_fault\<close>: \<open>Some k\<close> when the write raises after \<open>k\<close> characters
    reached the file, \<open>None\<close> when it succeeds.
\<close>

record env =
  graphql_introspection_query :: string
  requests_post :: "string \<Rightarrow> json \<Rightarrow> error + response"
  json_loads :: "string \<Rightarrow> json option"
  print_schema :: "json \<Rightarrow> error + string"
  open_fails :: "string \<Rightarrow> bool"
  write_fault :: "nat option"

datatype event =
    HttpPost string json
  | FileOpen string
  | FileWrite string string
  | FileClose string
  | Print string

text \<open>
  The world: the content of every file, the handles that are open (one entry per
  open handle, named by its path) and the effects performed so far, oldest first.
\<close>

record world =
  files :: "string \<rightharpoonup> string"
  handles :: "string list"
  events :: "event list"

definition emit :: "event \<Rightarrow> world \<Rightarrow> world" where
  "emit e w = w\<lparr>events := events w @ [e]\<rparr>"

subsection \<open>Python operations used by the scripts\<close>

text \<open>
  \<^verbatim>\<open>k in x\<close> for a string \<open>k\<close>: key membership on a dict, element membership
  on a list, substring on a str, \<^verbatim>\<open>TypeError\<close> on \<^verbatim>\<open>None\<close>, bools and
  numbers.
\<close>

fun py_contains :: "json \<Rightarrow> string \<Rightarrow> error + bool" where
  "py_contains (JObject kvs) k = Inr (map_of kvs k \<noteq> None)"
| "py_contains (JArray xs) k = Inr (JString k \<in> set xs)"
| "py_contains (JString s) k = Inr (sublist k s)"
| "py_contains JNull k = Inl TypeError"
| "py_contains (JBool b) k = Inl TypeError"
| "py_contains (JInt i) k = Inl TypeError"
| "py_contains (JFloat f) k = Inl TypeError"

text \<open>
  \<^verbatim>\<open>x[k]\<close> for a string \<open>k\<close>: \<^verbatim>\<open>KeyError\<close> on a dict without the key,
  \<^verbatim>\<open>TypeError\<close> on everything that is not a dict.
\<close>

fun py_getitem :: "json \<Rightarrow> string \<Rightarrow> error + json" where
  "py_getitem (JObject kvs) k =
     (case map_of kvs k of None \<Rightarrow> Inl (KeyError k) | Some v \<Rightarrow> Inr v)"
| "py_getitem (JArray xs) k = Inl TypeError"
| "py_getitem (JString s) k = Inl TypeError"
| "py_getitem JNull k = Inl TypeError"
| "py_getitem (JBool b) k = Inl TypeError"
| "py_getitem (JInt i) k = Inl TypeError"
| "py_getitem (JFloat f) k = Inl TypeError"

text \<open>
  \<^verbatim>\<open>open(path, 'w')\<close> either raises and leaves the world as it is, or truncates
  the file and hands out a handle. A write appends to the file what reached it and
  raises when the environment says so. Closing gives the handle back.
\<close>

definition py_open :: "env \<Rightarrow> string \<Rightarrow> world \<Rightarrow> (error + string) \<times> world" where
  "py_open env path w =
     (let w1 = emit (FileOpen path) w in
      if open_fails env path then (Inl OSError, w1)
      else (Inr path, w1\<lparr>files := (files w1)(path \<mapsto> []), handles := path # handles w1\<rparr>))"

definition py_write :: "env \<Rightarrow> string \<Rightarrow> string \<Rightarrow> world \<Rightarrow> (error + unit) \<times> world" where
  "py_write env h s w =
     (let w1 = emit (FileWrite h s) w;
          old = (case files w1 h of None \<Rightarrow> [] | Some c \<Rightarrow> c)
      in case write_fault env of
           None \<Rightarrow> (Inr (), w1\<lparr>files := (files w1)(h \<mapsto> old @ s)\<rparr>)
         | Some k \<Rightarrow> (Inl OSError, w1\<lparr>files := (files w1)(h \<mapsto> old @ take k s)\<rparr>))"

definition py_close :: "string \<Rightarrow> world \<Rightarrow> world" where
  "py_close h w = (let w1 = emit (FileClose h) w in w1\<lparr>handles := remove1 h (handles w1)\<rparr>)"

definition py_print :: "string \<Rightarrow> world \<Rightarrow> world" where
  "py_print s w = emit (Print s) w"

subsection \<open>graphql\_schema.py\<close>

definition endpoint_url :: string where
  "endpoint_url = ''https://your-graphql-endpoint.com/graphql''"

text \<open>
  \<^verbatim>\<open>fetch_schema\<close>: one call of \<^verbatim>\<open>requests.post\<close>, the body decoded, the
  membership test \<^verbatim>\<open>'errors' in response_json\<close>, then either
  \<^verbatim>\<open>raise Exception(response_json['errors'])\<close> or
  \<^verbatim>\<open>return response_json['data']\<close>.
\<close>

definition fetch_schema :: "env \<Rightarrow> string \<Rightarrow> world \<Rightarrow> (error + json) \<times> world" where
  "fetch_schema env url w =
     (let body = JObject [(''query'', JString (graphql_introspection_query env))];
          w1 = emit (HttpPost url body) w
      in case requests_post env url body of
           Inl e \<Rightarrow> (Inl e, w1)
         | Inr response \<Rightarrow>
             (case json_loads env (content response) of
                None \<Rightarrow> (Inl JSONDecodeError, w1)
              | Some response_json \<Rightarrow>
                  (case py_contains response_json ''errors'' of
                     Inl e \<Rightarrow> (Inl e, w1)
                   | Inr True \<Rightarrow>
                       (case py_getitem response_json ''errors'' of
                          Inl e \<Rightarrow> (Inl e, w1)
                        | Inr errs \<Rightarrow> (Inl (Exception errs), w1))
                   | Inr False \<Rightarrow>
                       (case py_getitem response_json ''data'' of
                          Inl e \<Rightarrow> (Inl e, w1)
                        | Inr d \<Rightarrow> (Inr d, w1)))))"

text \<open>
  \<^verbatim>\<open>save_schema\<close>: the \<^verbatim>\<open>with\<close> block closes the file when the body
  returns and when it raises.
\<close>

definition save_schema :: "env \<Rightarrow> string \<Rightarrow> string \<Rightarrow> world \<Rightarrow> (error + unit) \<times> world" where
  "save_schema env schema_json file_path w =
     (case py_open env file_path w of
        (Inl e, w1) \<Rightarrow> (Inl e, w1)
      | (Inr schema_file, w1) \<Rightarrow>
          (case py_write env schema_file schema_json w1 of
             (r, w2) \<Rightarrow> (r, py_close schema_file w2)))"

definition main :: "env \<Rightarrow> world \<Rightarrow> (error + unit) \<times> world" where
  "main env w =
     (case fetch_schema env endpoint_url w of
        (Inl e, w1) \<Rightarrow> (Inl e, w1)
      | (Inr schema_data, w1) \<Rightarrow>
          (case print_schema env schema_data of
             Inl e \<Rightarrow> (Inl e, w1)
           | Inr schema_json \<Rightarrow>
               (case save_schema env schema_json ''schema.graphql'' w1 of
                  (Inl e, w2) \<Rightarrow> (Inl e, w2)
                | (Inr u, w2) \<Rightarrow> (Inr (), py_print ''Schema saved successfully.'' w2))))"

subsection \<open>graphql\_schema2.py\<close>

text \<open>
  The second script defines the query text itself, and a second text that it never
  uses. Everything else is written as in the first script.
\<close>

definition introspection_query :: string where
  "introspection_query = concat [
     ''\<newline>'',
     ''    query IntrospectionQuery {\<newline>'',
     ''        __schema {\<newline>'',
     ''            queryType {\<newline>'',
     ''                name\<newline>'',
     ''            }\<newline>'',
     ''            mutationType {\<newline>'',
     ''                name\<newline>'',
     ''            }\<newline>'',
     ''            subscriptionType {\<newline>'',
     ''                name\<newline>'',
     ''            }\<newline>'',
     ''            types {\<newline>'',
     ''                ...FullType\<newline>'',
     ''            }\<newline>'',
     ''        }\<newline>'',
     ''    }\<newline>'',
     ''\<newline>'',
     ''    fragment FullType on __Type {\<newline>'',
     ''        kind\<newline>'',
     ''        name\<newline>'',
     ''        description\<newline>'',
     ''        fields(includeDeprecated: true) {\<newline>'',
     ''            name\<newline>'',
     ''            description\<newline>'',
     ''            args {\<newline>'',
     ''                ...InputValue\<newline>'',
     ''            }\<newline>'',
     ''            type {\<newline>'',
     ''                ...TypeRef\<newline>'',
     ''            }\<newline>'',
     ''            isDeprecated\<newline>'',
     ''            deprecationReason\<newline>'',
     ''        }\<newline>'',
     ''        inputFields {\<newline>'',
     ''            ...InputValue\<newline>'',
     ''        }\<newline>'',
     ''        interfaces {\<newline>'',
     ''            ...TypeRef\<newline>'',
     ''        }\<newline>'',
     ''        enumValues(includeDeprecated: true) {\<newline>'',
     ''            name\<newline>'',
     ''            description\<newline>'',
     ''            isDeprecated\<newline>'',
     ''            deprecationReason\<newline>'',
     ''        }\<newline>'',
     ''        possibleTypes {\<newline>'',
     ''            ...TypeRef\<newline>'',
     ''        }\<newline>'',
     ''    }\<newline>'',
     ''\<newline>'',
     ''    fragment InputValue on __InputValue {\<newline>'',
     ''        name\<newline>'',
     ''        description\<newline>'',
     ''        type {\<newline>'',
     ''            ...TypeRef\<newline>'',
     ''        }\<newline>'',
     ''        defaultValue\<newline>'',
     ''    }\<newline>'',
     ''\<newline>'',
     ''    fragment TypeRef on __Type {\<newline>'',
     ''        kind\<newline>'',
     ''        name\<newline>'',
     ''        ofType {\<newline>'',
     ''            kind\<newline>'',
     ''            name\<newline>'',
     ''            ofType {\<newline>'',
     ''                kind\<newline>'',
     ''                name\<newline>'',
     ''                ofType {\<newline>'',
     ''                    kind\<newline>'',
     ''                    name\<newline>'',
     ''                }\<newline>'',
     ''            }\<newline>'',
     ''        }\<newline>'',
     ''    }\<newline>'']"

definition introspection_query2 :: string where
  "introspection_query2 = concat [
     ''\<newline>'',
     ''        query IntrospectionQuery {\<newline>'',
     ''            __schema {\<newline>'',
     ''                types {\<newline>'',
     ''                    name\<newline>'',
     ''                    kind\<newline>'',
     ''                    fields {\<newline>'',
     ''                        name\<newline>'',
     ''                        type {\<newline>'',
     ''                            name\<newline>'',
     ''                            kind\<newline>'',
     ''                            ofType {\<newline>'',
     ''                                name\<newline>'',
     ''                                kind\<newline>'',
     ''                                ofType {\<newline>'',
     ''                                    name\<newline>'',
     ''                                    kind\<newline>'',
     ''                                }\<newline>'',
     ''                            }\<newline>'',
     ''                        }\<newline>'',
     ''                    }\<newline>'',
     ''                }\<newline>'',
     ''            }\<newline>'',
     ''        }\<newline>'',
     ''    '']"

definition endpoint_url2 :: string where
  "endpoint_url2 = ''https://your-graphql-endpoint.com/graphql''"

definition fetch_schema2 :: "env \<Rightarrow> string \<Rightarrow> world \<Rightarrow> (error + json) \<times> world" where
  "fetch_schema2 env url w =
     (let body = JObject [(''query'', JString introspection_query)];
          w1 = emit (HttpPost url body) w
      in case requests_post env url body of
           Inl e \<Rightarrow> (Inl e, w1)
         | Inr response \<Rightarrow>
             (case json_loads env (content response) of
                None \<Rightarrow> (Inl JSONDecodeError, w1)
              | Some response_json \<Rightarrow>
                  (case py_contains response_json ''errors'' of
                     Inl e \<Rightarrow> (Inl e, w1)
                   | Inr True \<Rightarrow>
                       (case py_getitem response_json ''errors'' of
                          Inl e \<Rightarrow> (Inl e, w1)
                        | Inr errs \<Rightarrow> (Inl (Exception errs), w1))
                   | Inr False \<Rightarrow>
                       (case py_getitem response_json ''data'' of
                          Inl e \<Rightarrow> (Inl e, w1)
                        | Inr d \<Rightarrow> (Inr d, w1)))))"

definition save_schema2 :: "env \<Rightarrow> string \<Rightarrow> string \<Rightarrow> world \<Rightarrow> (error + unit) \<times> world" where
  "save_schema2 env schema_json file_path w =
     (case py_open env file_path w of
        (Inl e, w1) \<Rightarrow> (Inl e, w1)
      | (Inr schema_file, w1) \<Rightarrow>
          (case py_write env schema_file schema_json w1 of
             (r, w2) \<Rightarrow> (r, py_close schema_file w2)))"

definition main2 :: "env \<Rightarrow> world \<Rightarrow> (error + unit) \<times> world" where
  "main2 env w =
     (case fetch_schema2 env endpoint_url2 w of
        (Inl e, w1) \<Rightarrow> (Inl e, w1)
      | (Inr schema_data, w1) \<Rightarrow>
          (case print_schema env schema_data of
             Inl e \<Rightarrow> (Inl e, w1)
           | Inr schema_json \<Rightarrow>
               (case save_schema2 env schema_json ''schema.graphql'' w1 of
                  (Inl e, w2) \<Rightarrow> (Inl e, w2)
                | (Inr u, w2) \<Rightarrow> (Inr (), py_print ''Schema saved successfully.'' w2))))"

subsection \<open>Concrete runs\<close>

text \<open>
  A world in which \<^verbatim>\<open>schema.graphql\<close> already exists, and an environment whose
  endpoint answers every request with the given status and a fixed body that decodes
  to the given value (or does not decode). The printer accepts a dict and refuses
  everything else; the file system works.
\<close>

definition world0 :: world where
  "world0 = \<lparr>files = [''schema.graphql'' \<mapsto> ''type Old''], handles = [], events = []\<rparr>"

definition demo_env :: "int \<Rightarrow> json option \<Rightarrow> env" where
  "demo_env code decoded =
     \<lparr>graphql_introspection_query = ''{ __schema { types { name } } }'',
      requests_post = (\<lambda>url body. Inr \<lparr>status_code = code, content = ''body''\<rparr>),
      json_loads = (\<lambda>s. decoded),
      print_schema = (\<lambda>d. case d of JObject kvs \<Rightarrow> Inr ''type Query'' | _ \<Rightarrow> Inl GraphQLError),
      open_fails = (\<lambda>p. False),
      write_fault = None\<rparr>"

text \<open>
  The same environment, except that every response the endpoint gives carries the
  status \<open>c\<close>.
\<close>

definition with_status :: "int \<Rightarrow> env \<Rightarrow> env" where
  "with_status c env =
     env\<lparr>requests_post := (\<lambda>url body.
            case requests_post env url body of
              Inl e \<Rightarrow> Inl e
            | Inr r \<Rightarrow> Inr (r\<lparr>status_code := c\<rparr>))\<rparr>"

abbreviation query_body :: "string \<Rightarrow> json" where
  "query_body q \<equiv> JObject [(''query'', JString q)]"

section \<open>Properties\<close>

subsection \<open>The second script is the first one with its own query text\<close>

lemma endpoint_url2_eq: "endpoint_url2 = endpoint_url"
  by (simp add: endpoint_url2_def endpoint_url_def)

lemma fetch_schema2_eq:
  "fetch_schema2 env url w = fetch_schema (env\<lparr>graphql_introspection_query := introspection_query\<rparr>) url w"
  by (simp add: fetch_schema2_def fetch_schema_def Let_def
      cong: sum.case_cong option.case_cong)

lemma save_schema2_eq: "save_schema2 = save_schema"
  by (intro ext) (simp add: save_schema2_def save_schema_def)

lemma py_open_query_irrelevant:
  "py_open (env\<lparr>graphql_introspection_query := q\<rparr>) p w = py_open env p w"
  by (simp add: py_open_def)

lemma py_write_query_irrelevant:
  "py_write (env\<lparr>graphql_introspection_query := q\<rparr>) h s w = py_write env h s w"
  by (simp add: py_write_def)

lemma save_schema_query_irrelevant:
  "save_schema (env\<lparr>graphql_introspection_query := q\<rparr>) s p w = save_schema env s p w"
  by (simp add: save_schema_def py_open_query_irrelevant py_write_query_irrelevant
      cong: prod.case_cong sum.case_cong)

lemma main2_eq:
  "main2 env w = main (env\<lparr>graphql_introspection_query := introspection_query\<rparr>) w"
  by (simp add: main2_def main_def fetch_schema2_eq save_schema2_eq endpoint_url2_eq
      save_schema_query_irrelevant cong: prod.case_cong sum.case_cong)

subsection \<open>What fetch\_schema and main do, case by case\<close>

lemma fetch_schema_world:
  "snd (fetch_schema env url w) = emit (HttpPost url (query_body (graphql_introspection_query env))) w"
  by (simp add: fetch_schema_def Let_def split: sum.splits option.splits bool.splits)

lemma fetch_schema_decoded:
  assumes "requests_post env url (query_body (graphql_introspection_query env)) = Inr r"
      and "json_loads env (content r) = Some j"
  shows "fst (fetch_schema env url w) =
           (case py_contains j ''errors'' of
              Inl e \<Rightarrow> Inl e
            | Inr True \<Rightarrow> (case py_getitem j ''errors'' of Inl e \<Rightarrow> Inl e | Inr errs \<Rightarrow> Inl (Exception errs))
            | Inr False \<Rightarrow> py_getitem j ''data'')"
  using assms by (simp add: fetch_schema_def Let_def split: sum.splits bool.splits)

lemma fetch_schema_object:
  assumes "requests_post env url (query_body (graphql_introspection_query env)) = Inr r"
      and "json_loads env (content r) = Some (JObject kvs)"
  shows "fst (fetch_schema env url w) =
           (case map_of kvs ''errors'' of
              Some errs \<Rightarrow> Inl (Exception errs)
            | None \<Rightarrow> (case map_of kvs ''data'' of None \<Rightarrow> Inl (KeyError ''data'') | Some d \<Rightarrow> Inr d))"
  using assms by (simp add: fetch_schema_def Let_def split: option.splits)

lemma fetch_schema_not_object:
  assumes "requests_post env url (query_body (graphql_introspection_query env)) = Inr r"
      and "json_loads env (content r) = Some j"
      and "\<forall>kvs. j \<noteq> JObject kvs"
  shows "fst (fetch_schema env url w) = Inl TypeError"
  using assms by (cases j) (simp_all add: fetch_schema_def Let_def split: bool.splits)

lemma fetch_schema_undecodable:
  assumes "requests_post env url (query_body (graphql_introspection_query env)) = Inr r"
      and "json_loads env (content r) = None"
  shows "fst (fetch_schema env url w) = Inl JSONDecodeError"
  using assms by (simp add: fetch_schema_def Let_def)

lemma main_fetch_failed:
  assumes "fst (fetch_schema env endpoint_url w) = Inl e"
  shows "main env w = (Inl e, emit (HttpPost endpoint_url (query_body (graphql_introspection_query env))) w)"
proof -
  obtain x w1 where eq: "fetch_schema env endpoint_url w = (x, w1)"
    by (cases "fetch_schema env endpoint_url w")
  from eq assms have "x = Inl e" by simp
  moreover from eq fetch_schema_world [of env endpoint_url w]
  have "w1 = emit (HttpPost endpoint_url (query_body (graphql_introspection_query env))) w" by simp
  ultimately show ?thesis using eq by (simp add: main_def)
qed

text \<open>The three ways \<open>save_schema\<close> can end, in one equation.\<close>

lemma save_schema_result:
  "save_schema env s p w =
     (if open_fails env p then (Inl OSError, emit (FileOpen p) w)
      else (case write_fault env of None \<Rightarrow> Inr () | Some k \<Rightarrow> Inl OSError,
            w\<lparr>files := (files w)(p \<mapsto> (case write_fault env of None \<Rightarrow> s | Some k \<Rightarrow> take k s)),
              events := events w @ [FileOpen p, FileWrite p s, FileClose p]\<rparr>))"
  by (simp add: save_schema_def py_open_def py_write_def py_close_def emit_def Let_def
      split: option.splits)


lemma fetch_schema_fst_cong:
  assumes "requests_post env url (query_body (graphql_introspection_query env)) =
           requests_post env' url' (query_body (graphql_introspection_query env'))"
      and "json_loads env = json_loads env'"
  shows "fst (fetch_schema env url w) = fst (fetch_schema env' url' w')"
  using assms
  by (simp add: fetch_schema_def Let_def split: sum.splits option.splits bool.splits)

lemma main_unfold:
  "main env w =
     (let w1 = emit (HttpPost endpoint_url (query_body (graphql_introspection_query env))) w
      in case fst (fetch_schema env endpoint_url w) of
           Inl e \<Rightarrow> (Inl e, w1)
         | Inr schema_data \<Rightarrow>
             (case print_schema env schema_data of
                Inl e \<Rightarrow> (Inl e, w1)
              | Inr schema_json \<Rightarrow>
                  (case save_schema env schema_json ''schema.graphql'' w1 of
                     (Inl e, w2) \<Rightarrow> (Inl e, w2)
                   | (Inr u, w2) \<Rightarrow> (Inr (), py_print ''Schema saved successfully.'' w2))))"
proof -
  obtain x w1 where eq: "fetch_schema env endpoint_url w = (x, w1)"
    by (cases "fetch_schema env endpoint_url w")
  from eq fetch_schema_world [of env endpoint_url w]
  have "w1 = emit (HttpPost endpoint_url (query_body (graphql_introspection_query env))) w" by simp
  with eq show ?thesis by (simp add: main_def Let_def)
qed

lemma main_success:
  assumes "fst (main env w) = Inr ()"
      and "requests_post env endpoint_url (query_body (graphql_introspection_query env)) = Inr r"
  shows "\<exists>j d s. json_loads env (content r) = Some j \<and> py_getitem j ''data'' = Inr d \<and>
                 print_schema env d = Inr s \<and>
                 files (snd (main env w)) ''schema.graphql'' = Some s"
proof -
  from assms(1) obtain d where d: "fst (fetch_schema env endpoint_url w) = Inr d"
    by (auto simp: main_unfold Let_def split: sum.splits prod.splits)
  from d assms(2) obtain j where j: "json_loads env (content r) = Some j"
    by (cases "json_loads env (content r)") (auto simp: fetch_schema_undecodable)
  from d fetch_schema_decoded [OF assms(2) j, of w] have g: "py_getitem j ''data'' = Inr d"
    by (auto split: sum.splits bool.splits)
  from assms(1) d obtain s where s: "print_schema env d = Inr s"
    by (auto simp: main_unfold Let_def split: sum.splits prod.splits)
  from assms(1) d s have "files (snd (main env w)) ''schema.graphql'' = Some s"
    by (auto simp: main_unfold Let_def save_schema_result py_print_def emit_def
        split: sum.splits prod.splits if_splits option.splits)
  with j g s show ?thesis by blast
qed

text \<open>Every way \<open>main\<close> can end, with the world it leaves.\<close>

lemma main_explicit:
  "main env w =
     (let w1 = emit (HttpPost endpoint_url (query_body (graphql_introspection_query env))) w;
          p = ''schema.graphql''
      in case fst (fetch_schema env endpoint_url w) of
           Inl e \<Rightarrow> (Inl e, w1)
         | Inr schema_data \<Rightarrow>
             (case print_schema env schema_data of
                Inl e \<Rightarrow> (Inl e, w1)
              | Inr s \<Rightarrow>
                  if open_fails env p then (Inl OSError, emit (FileOpen p) w1)
                  else (case write_fault env of
                          Some k \<Rightarrow>
                            (Inl OSError,
                             w1\<lparr>files := (files w1)(p \<mapsto> take k s),
                                events := events w1 @ [FileOpen p, FileWrite p s, FileClose p]\<rparr>)
                        | None \<Rightarrow>
                            (Inr (),
                             w1\<lparr>files := (files w1)(p \<mapsto> s),
                                events := events w1 @ [FileOpen p, FileWrite p s, FileClose p,
                                           Print ''Schema saved successfully.'']\<rparr>))))"
  by (simp add: main_unfold save_schema_result Let_def py_print_def emit_def
      split: sum.splits option.splits)

text \<open>The status of the response is never read.\<close>

lemma fetch_schema_with_status:
  "fetch_schema (with_status c env) url w = fetch_schema env url w"
  by (simp add: fetch_schema_def with_status_def Let_def split: sum.splits)

lemma save_schema_with_status:
  "save_schema (with_status c env) s p w = save_schema env s p w"
  by (simp add: save_schema_result with_status_def)

lemma main_with_status: "main (with_status c env) w = main env w"
proof -
  have "print_schema (with_status c env) = print_schema env"
    by (simp add: with_status_def)
  then show ?thesis
    by (simp add: main_def fetch_schema_with_status save_schema_with_status
        cong: prod.case_cong sum.case_cong)
qed

subsection \<open>Server-reported errors\<close>

text \<open>
  C1: when the decoded body is an object whose \<^verbatim>\<open>errors\<close> entry is a non-empty
  array, \<open>fetch_schema\<close> raises \<^verbatim>\<open>Exception\<close> carrying that array as it was
  received, \<open>main\<close> ends with the same exception, the only effect of the run is the
  request (no file is opened, written or closed, nothing is printed), and every file,
  \<^verbatim>\<open>schema.graphql\<close> included, keeps its content.
\<close>

theorem errors_abort_before_write:
  assumes "requests_post env endpoint_url (query_body (graphql_introspection_query env)) = Inr r"
      and "json_loads env (content r) = Some (JObject kvs)"
      and "map_of kvs ''errors'' = Some (JArray es)"
      and "es \<noteq> []"
  shows "fst (fetch_schema env endpoint_url w) = Inl (Exception (JArray es))
       \<and> fst (main env w) = Inl (Exception (JArray es))
       \<and> events (snd (main env w)) =
           events w @ [HttpPost endpoint_url (query_body (graphql_introspection_query env))]
       \<and> handles (snd (main env w)) = handles w
       \<and> files (snd (main env w)) = files w"
proof -
  have f: "fst (fetch_schema env endpoint_url w) = Inl (Exception (JArray es))"
    using fetch_schema_object [OF assms(1) assms(2), of w] assms(3) by simp
  show ?thesis
    using f main_fetch_failed [OF f] by (simp add: emit_def)
qed

theorem errors_abort_before_write_witness:
  "fst (main (demo_env 200 (Some (JObject [(''errors'', JArray [JString ''boom''])]))) world0)
     = Inl (Exception (JArray [JString ''boom'']))
   \<and> files (snd (main (demo_env 200 (Some (JObject [(''errors'', JArray [JString ''boom''])]))) world0))
       ''schema.graphql'' = Some ''type Old''"
  using errors_abort_before_write
    [of "demo_env 200 (Some (JObject [(''errors'', JArray [JString ''boom''])]))"
        "\<lparr>status_code = 200, content = ''body''\<rparr>"
        "[(''errors'', JArray [JString ''boom''])]" "[JString ''boom'']" world0]
  by (simp add: demo_env_def world0_def)

text \<open>
  The check is \<^verbatim>\<open>'errors' in response_json\<close>: it asks for the key, not for a
  non-empty value. With \<^verbatim>\<open>errors\<close> present and empty (and \<^verbatim>\<open>data\<close>
  present), both scripts raise \<^verbatim>\<open>Exception([])\<close> and the run stops, so C2 as
  stated does not hold.
\<close>

theorem empty_errors_still_abort:
  "map_of [(''errors'', JArray []), (''data'', JObject [])] ''errors'' = Some (JArray [])
   \<and> fst (fetch_schema (demo_env 200 (Some (JObject [(''errors'', JArray []), (''data'', JObject [])])))
            endpoint_url world0) = Inl (Exception (JArray []))
   \<and> fst (fetch_schema2 (demo_env 200 (Some (JObject [(''errors'', JArray []), (''data'', JObject [])])))
            endpoint_url2 world0) = Inl (Exception (JArray []))
   \<and> fst (main (demo_env 200 (Some (JObject [(''errors'', JArray []), (''data'', JObject [])]))) world0)
       = Inl (Exception (JArray []))"
  by (simp add: main_def fetch_schema_def fetch_schema2_def demo_env_def Let_def)

text \<open>
  C2, amended: for a decoded body \<open>j\<close>, the check raises its \<^verbatim>\<open>Exception\<close>
  exactly when \<open>j\<close> is an object that has an \<^verbatim>\<open>errors\<close> key, whatever the
  value under the key; the exception carries that value. This holds for both scripts.
\<close>

theorem validation_fails_iff_errors_key:
  assumes "requests_post env url (query_body (graphql_introspection_query env)) = Inr r"
      and "requests_post env url (query_body introspection_query) = Inr r"
      and "json_loads env (content r) = Some j"
  shows "((\<exists>e. fst (fetch_schema env url w) = Inl (Exception e)) \<longleftrightarrow>
            (\<exists>kvs v. j = JObject kvs \<and> map_of kvs ''errors'' = Some v))
       \<and> ((\<exists>e. fst (fetch_schema2 env url w) = Inl (Exception e)) \<longleftrightarrow>
            (\<exists>kvs v. j = JObject kvs \<and> map_of kvs ''errors'' = Some v))
       \<and> (\<forall>kvs v. j = JObject kvs \<longrightarrow> map_of kvs ''errors'' = Some v \<longrightarrow>
            fst (fetch_schema env url w) = Inl (Exception v) \<and>
            fst (fetch_schema2 env url w) = Inl (Exception v))"
proof -
  have one: "((\<exists>e. fst (fetch_schema env' url w) = Inl (Exception e)) \<longleftrightarrow>
               (\<exists>kvs v. j = JObject kvs \<and> map_of kvs ''errors'' = Some v))
           \<and> (\<forall>kvs v. j = JObject kvs \<longrightarrow> map_of kvs ''errors'' = Some v \<longrightarrow>
                 fst (fetch_schema env' url w) = Inl (Exception v))"
    if p: "requests_post env' url (query_body (graphql_introspection_query env')) = Inr r"
      and l: "json_loads env' (content r) = Some j" for env'
  proof (cases "\<exists>kvs. j = JObject kvs")
    case True
    then obtain kvs where "j = JObject kvs" by blast
    then show ?thesis
      using fetch_schema_object [OF p, of kvs w] l by (auto split: option.splits)
  next
    case False
    then show ?thesis
      using fetch_schema_not_object [OF p l] by auto
  qed
  have two: "fetch_schema2 env url w =
               fetch_schema (env\<lparr>graphql_introspection_query := introspection_query\<rparr>) url w"
    by (rule fetch_schema2_eq)
  show ?thesis
    using one [of env] one [of "env\<lparr>graphql_introspection_query := introspection_query\<rparr>"] assms
    by (simp add: two)
qed

theorem validation_fails_iff_errors_key_witness:
  "fst (fetch_schema (demo_env 200 (Some (JObject [(''errors'', JNull)]))) endpoint_url world0)
     = Inl (Exception JNull)
   \<and> fst (fetch_schema2 (demo_env 200 (Some (JObject [(''errors'', JNull)]))) endpoint_url world0)
     = Inl (Exception JNull)"
  using validation_fails_iff_errors_key
    [of "demo_env 200 (Some (JObject [(''errors'', JNull)]))" endpoint_url
        "\<lparr>status_code = 200, content = ''body''\<rparr>" "JObject [(''errors'', JNull)]" world0]
  by (simp add: demo_env_def)

subsection \<open>The data payload\<close>

text \<open>
  C3: when the decoded body is an object with a \<^verbatim>\<open>data\<close> entry and the check
  does not raise its \<^verbatim>\<open>Exception\<close>, \<open>fetch_schema\<close> returns the value of
  that entry, unchanged.
\<close>

theorem data_returned_unchanged:
  assumes "requests_post env url (query_body (graphql_introspection_query env)) = Inr r"
      and "json_loads env (content r) = Some (JObject kvs)"
      and "map_of kvs ''data'' = Some d"
      and "\<forall>e. fst (fetch_schema env url w) \<noteq> Inl (Exception e)"
  shows "fst (fetch_schema env url w) = Inr d"
  using fetch_schema_object [OF assms(1) assms(2), of w] assms(3) assms(4)
  by (auto split: option.splits)

theorem data_returned_unchanged_witness:
  "fst (fetch_schema (demo_env 200 (Some (JObject [(''data'', JObject [(''__schema'', JNull)])])))
          endpoint_url world0) = Inr (JObject [(''__schema'', JNull)])"
proof -
  have "\<forall>e. fst (fetch_schema (demo_env 200 (Some (JObject [(''data'', JObject [(''__schema'', JNull)])])))
          endpoint_url world0) \<noteq> Inl (Exception e)"
    by (simp add: fetch_schema_def demo_env_def Let_def)
  then show ?thesis
    using data_returned_unchanged
      [of "demo_env 200 (Some (JObject [(''data'', JObject [(''__schema'', JNull)])]))" endpoint_url
          "\<lparr>status_code = 200, content = ''body''\<rparr>"
          "[(''data'', JObject [(''__schema'', JNull)])]" "JObject [(''__schema'', JNull)]" world0]
    by (simp add: demo_env_def)
qed

subsection \<open>The request\<close>

text \<open>
  C4: whatever the endpoint does, \<open>fetch_schema\<close> adds exactly one effect to the
  world, a POST to the given URL whose JSON body is the object with the single key
  \<^verbatim>\<open>query\<close> holding the introspection query text; there is no second request.
  When the call returns a response, its body is decoded as JSON and the outcome is
  computed from the decoded value (a body that does not decode gives the decode
  error); when the call raises, the exception is passed on.
\<close>

theorem one_post_then_decode:
  "events (snd (fetch_schema env url w)) =
     events w @ [HttpPost url (JObject [(''query'', JString (graphql_introspection_query env))])]
   \<and> (\<forall>r. requests_post env url (JObject [(''query'', JString (graphql_introspection_query env))]) = Inr r \<longrightarrow>
          fst (fetch_schema env url w) =
            (case json_loads env (content r) of
               None \<Rightarrow> Inl JSONDecodeError
             | Some response_json \<Rightarrow>
                 (case py_contains response_json ''errors'' of
                    Inl e \<Rightarrow> Inl e
                  | Inr True \<Rightarrow>
                      (case py_getitem response_json ''errors'' of
                         Inl e \<Rightarrow> Inl e
                       | Inr errs \<Rightarrow> Inl (Exception errs))
                  | Inr False \<Rightarrow> py_getitem response_json ''data'')))
   \<and> (\<forall>e. requests_post env url (JObject [(''query'', JString (graphql_introspection_query env))]) = Inl e \<longrightarrow>
          fst (fetch_schema env url w) = Inl e)"
proof (intro conjI allI impI)
  show "events (snd (fetch_schema env url w)) =
     events w @ [HttpPost url (JObject [(''query'', JString (graphql_introspection_query env))])]"
    by (simp add: fetch_schema_world emit_def)
next
  fix r
  assume p: "requests_post env url (JObject [(''query'', JString (graphql_introspection_query env))]) = Inr r"
  show "fst (fetch_schema env url w) =
            (case json_loads env (content r) of
               None \<Rightarrow> Inl JSONDecodeError
             | Some response_json \<Rightarrow>
                 (case py_contains response_json ''errors'' of
                    Inl e \<Rightarrow> Inl e
                  | Inr True \<Rightarrow>
                      (case py_getitem response_json ''errors'' of
                         Inl e \<Rightarrow> Inl e
                       | Inr errs \<Rightarrow> Inl (Exception errs))
                  | Inr False \<Rightarrow> py_getitem response_json ''data''))"
  proof (cases "json_loads env (content r)")
    case None
    then show ?thesis using fetch_schema_undecodable [OF p] by simp
  next
    case (Some j)
    then show ?thesis using fetch_schema_decoded [OF p] by simp
  qed
next
  fix e
  assume "requests_post env url (JObject [(''query'', JString (graphql_introspection_query env))]) = Inl e"
  then show "fst (fetch_schema env url w) = Inl e"
    by (simp add: fetch_schema_def Let_def)
qed

theorem one_post_then_decode_witness:
  "events (snd (fetch_schema (demo_env 200 None) endpoint_url world0)) =
     [HttpPost endpoint_url (JObject [(''query'', JString ''{ __schema { types { name } } }'')])]
   \<and> fst (fetch_schema (demo_env 200 None) endpoint_url world0) = Inl JSONDecodeError"
  using one_post_then_decode [of "demo_env 200 None" endpoint_url world0]
  by (simp add: demo_env_def world0_def)

subsection \<open>A body that is not JSON\<close>

text \<open>
  C5: when the body of the response is not valid JSON, \<open>main\<close> ends with the decode
  error; the request is the only effect of the run, so no file is opened, and every
  file keeps its content.
\<close>

theorem undecodable_body_no_file:
  assumes "requests_post env endpoint_url (query_body (graphql_introspection_query env)) = Inr r"
      and "json_loads env (content r) = None"
  shows "fst (main env w) = Inl JSONDecodeError
       \<and> events (snd (main env w)) =
           events w @ [HttpPost endpoint_url (query_body (graphql_introspection_query env))]
       \<and> (\<forall>p. FileOpen p \<in> set (events (snd (main env w))) \<longrightarrow> FileOpen p \<in> set (events w))
       \<and> handles (snd (main env w)) = handles w
       \<and> files (snd (main env w)) = files w"
  using main_fetch_failed [OF fetch_schema_undecodable [OF assms]]
  by (simp add: emit_def)

theorem undecodable_body_no_file_witness:
  "fst (main (demo_env 200 None) world0) = Inl JSONDecodeError
   \<and> files (snd (main (demo_env 200 None) world0)) ''schema.graphql'' = Some ''type Old''
   \<and> events (snd (main (demo_env 200 None) world0)) =
       [HttpPost endpoint_url (query_body ''{ __schema { types { name } } }'')]"
  using undecodable_body_no_file
    [of "demo_env 200 None" "\<lparr>status_code = 200, content = ''body''\<rparr>" world0]
  by (simp add: demo_env_def world0_def)

subsection \<open>The two scripts\<close>

text \<open>
  The first script sends the query text it imports from the library, the second the
  text it defines itself. Where the library's text is another one, the two requests
  differ, so C6 as stated does not hold.
\<close>

theorem scripts_send_different_queries:
  "events (snd (main (demo_env 200 None) world0)) =
     [HttpPost endpoint_url (query_body ''{ __schema { types { name } } }'')]
   \<and> events (snd (main2 (demo_env 200 None) world0)) =
     [HttpPost endpoint_url2 (query_body introspection_query)]
   \<and> events (snd (main (demo_env 200 None) world0)) \<noteq> events (snd (main2 (demo_env 200 None) world0))"
proof -
  have a: "events (snd (main (demo_env 200 None) world0)) =
     [HttpPost endpoint_url (query_body ''{ __schema { types { name } } }'')]"
    by (simp add: main_explicit fetch_schema_def Let_def demo_env_def world0_def emit_def)
  have b: "events (snd (main2 (demo_env 200 None) world0)) =
     [HttpPost endpoint_url2 (query_body introspection_query)]"
    by (simp add: main2_eq endpoint_url2_eq main_explicit fetch_schema_def Let_def demo_env_def
        world0_def emit_def)
  have "hd introspection_query = CHR 0x0A"
    by (simp add: introspection_query_def)
  moreover have "hd ''{ __schema { types { name } } }'' \<noteq> CHR 0x0A"
    by simp
  ultimately have c: "''{ __schema { types { name } } }'' \<noteq> introspection_query"
    by metis
  show ?thesis using a b c by simp
qed

text \<open>
  C6, amended: both scripts post to the same URL a body of the same shape, each with
  its own query text. When the endpoint gives both requests the same answer, the two
  runs end with the same result, leave the same files and handles, and perform the
  same effects after the request. The two runs are equal in everything exactly when
  the library's query text is the text the second script defines.
\<close>

theorem scripts_agree_after_request:
  assumes "requests_post env endpoint_url (query_body (graphql_introspection_query env)) =
           requests_post env endpoint_url2 (query_body introspection_query)"
  shows "fst (main env w) = fst (main2 env w)
       \<and> files (snd (main env w)) = files (snd (main2 env w))
       \<and> handles (snd (main env w)) = handles (snd (main2 env w))
       \<and> (\<exists>rest.
            events (snd (main env w)) =
              events w @ HttpPost endpoint_url (query_body (graphql_introspection_query env)) # rest \<and>
            events (snd (main2 env w)) =
              events w @ HttpPost endpoint_url2 (query_body introspection_query) # rest)
       \<and> (main env w = main2 env w \<longleftrightarrow> graphql_introspection_query env = introspection_query)"
proof -
  let ?env' = "env\<lparr>graphql_introspection_query := introspection_query\<rparr>"
  have m2: "main2 env w = main ?env' w" by (rule main2_eq)
  have f: "fst (fetch_schema env endpoint_url w) = fst (fetch_schema ?env' endpoint_url w)"
    using assms by (intro fetch_schema_fst_cong) (simp_all add: endpoint_url2_eq)
  have r: "fst (main env w) = fst (main ?env' w)"
    using f by (simp add: main_explicit Let_def split: sum.splits option.splits)
  have fl: "files (snd (main env w)) = files (snd (main ?env' w))"
    using f by (simp add: main_explicit Let_def emit_def split: sum.splits option.splits)
  have h: "handles (snd (main env w)) = handles (snd (main ?env' w))"
    using f by (simp add: main_explicit Let_def emit_def split: sum.splits option.splits)
  have ev: "\<exists>rest.
            events (snd (main env w)) =
              events w @ HttpPost endpoint_url (query_body (graphql_introspection_query env)) # rest \<and>
            events (snd (main ?env' w)) =
              events w @ HttpPost endpoint_url2 (query_body introspection_query) # rest"
    using f by (simp add: main_explicit Let_def emit_def endpoint_url2_eq
        split: sum.splits option.splits)
  have eq: "main env w = main ?env' w \<longleftrightarrow> graphql_introspection_query env = introspection_query"
  proof
    assume "main env w = main ?env' w"
    then have "events (snd (main env w)) = events (snd (main ?env' w))" by simp
    with ev show "graphql_introspection_query env = introspection_query" by auto
  next
    assume "graphql_introspection_query env = introspection_query"
    then have "?env' = env" by simp
    then show "main env w = main ?env' w" by simp
  qed
  show ?thesis
    unfolding m2 using r fl h ev eq by blast
qed

theorem scripts_agree_after_request_witness:
  "fst (main (demo_env 200 (Some (JObject [(''data'', JObject [])]))) world0) = Inr ()
   \<and> fst (main2 (demo_env 200 (Some (JObject [(''data'', JObject [])]))) world0) = Inr ()
   \<and> files (snd (main2 (demo_env 200 (Some (JObject [(''data'', JObject [])]))) world0))
       ''schema.graphql'' = Some ''type Query''"
proof -
  have a: "fst (main (demo_env 200 (Some (JObject [(''data'', JObject [])]))) world0) = Inr ()"
    by (simp add: main_explicit fetch_schema_def Let_def demo_env_def)
  have b: "files (snd (main (demo_env 200 (Some (JObject [(''data'', JObject [])]))) world0))
       ''schema.graphql'' = Some ''type Query''"
    by (simp add: main_explicit fetch_schema_def Let_def demo_env_def emit_def)
  show ?thesis
    using a b scripts_agree_after_request
      [of "demo_env 200 (Some (JObject [(''data'', JObject [])]))" world0]
    by (simp add: demo_env_def)
qed

subsection \<open>Writing the file\<close>

text \<open>
  C7: \<open>save_schema\<close> first opens \<open>path\<close> for writing. If the file opens, its old
  content is gone and the file holds what was written: the whole text when the write
  succeeds, the part that reached the file when the write raises. On success the
  content is exactly \<open>sdlText\<close>. On every exit path (open refused, write failed
  partway, success) the open handles are the ones from before the call, and no other
  file changes.
\<close>

theorem save_schema_writes_and_releases:
  "take (Suc (length (events w))) (events (snd (save_schema env sdlText path w))) =
     events w @ [FileOpen path]
   \<and> handles (snd (save_schema env sdlText path w)) = handles w
   \<and> (fst (save_schema env sdlText path w) = Inr () \<longrightarrow>
        files (snd (save_schema env sdlText path w)) path = Some sdlText)
   \<and> (\<not> open_fails env path \<longrightarrow>
        events (snd (save_schema env sdlText path w)) =
          events w @ [FileOpen path, FileWrite path sdlText, FileClose path] \<and>
        files (snd (save_schema env sdlText path w)) path =
          Some (case write_fault env of None \<Rightarrow> sdlText | Some k \<Rightarrow> take k sdlText) \<and>
        fst (save_schema env sdlText path w) =
          (case write_fault env of None \<Rightarrow> Inr () | Some k \<Rightarrow> Inl OSError))
   \<and> (open_fails env path \<longrightarrow>
        fst (save_schema env sdlText path w) = Inl OSError \<and>
        files (snd (save_schema env sdlText path w)) = files w)
   \<and> (\<forall>p. p \<noteq> path \<longrightarrow> files (snd (save_schema env sdlText path w)) p = files w p)"
  by (simp add: save_schema_result emit_def split: option.splits)

theorem save_schema_writes_and_releases_witness:
  "handles (snd (save_schema ((demo_env 200 None)\<lparr>write_fault := Some 4\<rparr>) ''type Query''
                   ''schema.graphql'' (world0\<lparr>handles := [''other.txt'']\<rparr>))) = [''other.txt'']
   \<and> files (snd (save_schema ((demo_env 200 None)\<lparr>write_fault := Some 4\<rparr>) ''type Query''
                   ''schema.graphql'' (world0\<lparr>handles := [''other.txt'']\<rparr>))) ''schema.graphql''
       = Some ''type''
   \<and> fst (save_schema ((demo_env 200 None)\<lparr>write_fault := Some 4\<rparr>) ''type Query''
                   ''schema.graphql'' (world0\<lparr>handles := [''other.txt'']\<rparr>)) = Inl OSError
   \<and> fst (save_schema (demo_env 200 None) ''type Query'' ''schema.graphql'' world0) = Inr ()
   \<and> files (snd (save_schema (demo_env 200 None) ''type Query'' ''schema.graphql'' world0))
       ''schema.graphql'' = Some ''type Query''"
  using save_schema_writes_and_releases
    [of "world0\<lparr>handles := [''other.txt'']\<rparr>" "(demo_env 200 None)\<lparr>write_fault := Some 4\<rparr>"
        "''type Query''" "''schema.graphql''"]
    save_schema_writes_and_releases
    [of world0 "demo_env 200 None" "''type Query''" "''schema.graphql''"]
  by (simp add: demo_env_def world0_def)

subsection \<open>Determinism\<close>

text \<open>
  C8: two runs of \<open>main\<close> that both complete and receive responses with the same
  body leave the same content in \<^verbatim>\<open>schema.graphql\<close>, whatever the files held
  before, whatever the status of the responses and whatever query text the library
  provides. The decoder and the printer are the same functions in both runs.
\<close>

theorem same_body_same_file:
  assumes "json_loads env1 = json_loads env2"
      and "print_schema env1 = print_schema env2"
      and "requests_post env1 endpoint_url (query_body (graphql_introspection_query env1)) = Inr r1"
      and "requests_post env2 endpoint_url (query_body (graphql_introspection_query env2)) = Inr r2"
      and "content r1 = content r2"
      and "fst (main env1 w1) = Inr ()"
      and "fst (main env2 w2) = Inr ()"
  shows "files (snd (main env1 w1)) ''schema.graphql'' = files (snd (main env2 w2)) ''schema.graphql''
       \<and> files (snd (main env1 w1)) ''schema.graphql'' \<noteq> None"
proof -
  from main_success [OF assms(6) assms(3)] obtain j d s where
    a: "json_loads env1 (content r1) = Some j" "py_getitem j ''data'' = Inr d"
       "print_schema env1 d = Inr s" "files (snd (main env1 w1)) ''schema.graphql'' = Some s"
    by blast
  from main_success [OF assms(7) assms(4)] obtain j' d' s' where
    b: "json_loads env2 (content r2) = Some j'" "py_getitem j' ''data'' = Inr d'"
       "print_schema env2 d' = Inr s'" "files (snd (main env2 w2)) ''schema.graphql'' = Some s'"
    by blast
  from a(1) b(1) assms(1) assms(5) have "j' = j" by simp
  with a(2) b(2) have "d' = d" by simp
  with a(3) b(3) assms(2) have "s' = s" by simp
  with a(4) b(4) show ?thesis by simp
qed

theorem same_body_same_file_witness:
  "files (snd (main (demo_env 200 (Some (JObject [(''data'', JObject [])]))) world0)) ''schema.graphql''
     = files (snd (main ((demo_env 203 (Some (JObject [(''data'', JObject [])])))
                            \<lparr>graphql_introspection_query := introspection_query\<rparr>)
                        (world0\<lparr>files := Map.empty\<rparr>))) ''schema.graphql''"
proof -
  have a: "fst (main (demo_env 200 (Some (JObject [(''data'', JObject [])]))) world0) = Inr ()"
    by (simp add: main_explicit fetch_schema_def Let_def demo_env_def)
  have b: "fst (main ((demo_env 203 (Some (JObject [(''data'', JObject [])])))
                            \<lparr>graphql_introspection_query := introspection_query\<rparr>)
                        (world0\<lparr>files := Map.empty\<rparr>)) = Inr ()"
    by (simp add: main_explicit fetch_schema_def Let_def demo_env_def)
  show ?thesis
    using a b same_body_same_file
      [of "demo_env 200 (Some (JObject [(''data'', JObject [])]))"
          "(demo_env 203 (Some (JObject [(''data'', JObject [])])))
              \<lparr>graphql_introspection_query := introspection_query\<rparr>"
          "\<lparr>status_code = 200, content = ''body''\<rparr>"
          "\<lparr>status_code = 203, content = ''body''\<rparr>"
          world0 "world0\<lparr>files := Map.empty\<rparr>"]
    by (simp add: demo_env_def)
qed

subsection \<open>The status code\<close>

text \<open>
  C9: for a response whose status is outside 200..299 and whose body is not valid
  JSON, \<open>fetch_schema\<close> and \<open>main\<close> of both scripts end with the decode error, not
  with the error of a failed request. The status is never read: giving every response
  another status changes nothing in a run.
\<close>

theorem status_code_not_inspected:
  assumes "requests_post env endpoint_url (query_body (graphql_introspection_query env)) = Inr r"
      and "requests_post env endpoint_url2 (query_body introspection_query) = Inr r"
      and "\<not> (200 \<le> status_code r \<and> status_code r < 300)"
      and "json_loads env (content r) = None"
  shows "fst (fetch_schema env endpoint_url w) = Inl JSONDecodeError
       \<and> fst (fetch_schema2 env endpoint_url2 w) = Inl JSONDecodeError
       \<and> fst (main env w) = Inl JSONDecodeError
       \<and> fst (main2 env w) = Inl JSONDecodeError
       \<and> fst (main env w) \<noteq> Inl RequestException
       \<and> fst (main2 env w) \<noteq> Inl RequestException
       \<and> (\<forall>c. main (with_status c env) w = main env w)
       \<and> (\<forall>c. main2 (with_status c env) w = main2 env w)"
proof -
  let ?env' = "env\<lparr>graphql_introspection_query := introspection_query\<rparr>"
  have p2: "requests_post ?env' endpoint_url (query_body (graphql_introspection_query ?env')) = Inr r"
    using assms(2) by (simp add: endpoint_url2_eq)
  have l2: "json_loads ?env' (content r) = None"
    using assms(4) by simp
  have f1: "fst (fetch_schema env endpoint_url w) = Inl JSONDecodeError"
    by (rule fetch_schema_undecodable [OF assms(1) assms(4)])
  have f2: "fst (fetch_schema ?env' endpoint_url w) = Inl JSONDecodeError"
    by (rule fetch_schema_undecodable [OF p2 l2])
  have m1: "fst (main env w) = Inl JSONDecodeError"
    using main_fetch_failed [OF f1] by simp
  have m2: "fst (main2 env w) = Inl JSONDecodeError"
    using main_fetch_failed [OF f2] by (simp add: main2_eq)
  have s2: "(with_status c env)\<lparr>graphql_introspection_query := introspection_query\<rparr> =
            with_status c ?env'" for c
    by (simp add: with_status_def)
  have i2: "main2 (with_status c env) w = main2 env w" for c
    by (simp add: main2_eq s2 main_with_status)
  show ?thesis
    using f1 f2 m1 m2 i2 by (simp add: fetch_schema2_eq endpoint_url2_eq main_with_status)
qed

theorem status_code_not_inspected_witness:
  "fst (main (demo_env 502 None) world0) = Inl JSONDecodeError
   \<and> fst (main2 (demo_env 502 None) world0) = Inl JSONDecodeError"
  using status_code_not_inspected
    [of "demo_env 502 None" "\<lparr>status_code = 502, content = ''body''\<rparr>" world0]
  by (simp add: demo_env_def)

subsection \<open>Neither errors nor data\<close>

text \<open>
  A decoded body that is not a dict has neither key, and the scripts fail on it with
  \<^verbatim>\<open>TypeError\<close>, not with a key-lookup error: \<^verbatim>\<open>[]['data']\<close> raises
  \<^verbatim>\<open>TypeError\<close>. So C10 as stated does not hold for every decoded body.
\<close>

theorem non_object_body_type_error:
  "fst (fetch_schema (demo_env 200 (Some (JArray []))) endpoint_url world0) = Inl TypeError
   \<and> fst (fetch_schema2 (demo_env 200 (Some (JArray []))) endpoint_url2 world0) = Inl TypeError
   \<and> fst (main (demo_env 200 (Some (JArray []))) world0) \<noteq> Inl (KeyError ''data'')"
  by (simp add: main_explicit fetch_schema_def fetch_schema2_def demo_env_def Let_def)

text \<open>
  C10, amended: when the decoded body has neither an \<^verbatim>\<open>errors\<close> key nor a
  \<^verbatim>\<open>data\<close> key, both scripts fail with \<^verbatim>\<open>KeyError('data')\<close> if the
  body is an object and with \<^verbatim>\<open>TypeError\<close> if it is any other JSON value;
  in both cases the error is neither the decode error nor the exception that carries
  server errors, the request is the only effect, and no file changes.
\<close>

theorem missing_keys_lookup_error:
  assumes "requests_post env endpoint_url (query_body (graphql_introspection_query env)) = Inr r"
      and "requests_post env endpoint_url2 (query_body introspection_query) = Inr r"
      and "json_loads env (content r) = Some j"
      and "\<forall>kvs. j = JObject kvs \<longrightarrow> map_of kvs ''errors'' = None \<and> map_of kvs ''data'' = None"
  shows "fst (fetch_schema env endpoint_url w) =
           Inl (case j of JObject kvs \<Rightarrow> KeyError ''data'' | _ \<Rightarrow> TypeError)
       \<and> fst (fetch_schema2 env endpoint_url2 w) =
           Inl (case j of JObject kvs \<Rightarrow> KeyError ''data'' | _ \<Rightarrow> TypeError)
       \<and> fst (main env w) = Inl (case j of JObject kvs \<Rightarrow> KeyError ''data'' | _ \<Rightarrow> TypeError)
       \<and> fst (main2 env w) = Inl (case j of JObject kvs \<Rightarrow> KeyError ''data'' | _ \<Rightarrow> TypeError)
       \<and> events (snd (main env w)) =
           events w @ [HttpPost endpoint_url (query_body (graphql_introspection_query env))]
       \<and> events (snd (main2 env w)) =
           events w @ [HttpPost endpoint_url2 (query_body introspection_query)]
       \<and> files (snd (main env w)) = files w
       \<and> files (snd (main2 env w)) = files w"
proof -
  let ?env' = "env\<lparr>graphql_introspection_query := introspection_query\<rparr>"
  let ?e = "case j of JObject kvs \<Rightarrow> KeyError ''data'' | _ \<Rightarrow> TypeError"
  have one: "fst (fetch_schema env' endpoint_url w) = Inl ?e"
    if p: "requests_post env' endpoint_url (query_body (graphql_introspection_query env')) = Inr r"
      and l: "json_loads env' (content r) = Some j" for env'
  proof (cases "\<exists>kvs. j = JObject kvs")
    case True
    then obtain kvs where "j = JObject kvs" by blast
    then show ?thesis
      using fetch_schema_object [OF p, of kvs w] l assms(4) by simp
  next
    case False
    then have "?e = TypeError" by (cases j) simp_all
    then show ?thesis
      using fetch_schema_not_object [OF p l] False by simp
  qed
  have f1: "fst (fetch_schema env endpoint_url w) = Inl ?e"
    using one [of env] assms by simp
  have f2: "fst (fetch_schema ?env' endpoint_url w) = Inl ?e"
    using one [of ?env'] assms by (simp add: endpoint_url2_eq)
  show ?thesis
    using f1 f2 main_fetch_failed [OF f1] main_fetch_failed [OF f2]
    by (simp add: fetch_schema2_eq main2_eq endpoint_url2_eq emit_def)
qed

theorem missing_keys_lookup_error_witness:
  "fst (main (demo_env 200 (Some (JObject [(''extensions'', JNull)]))) world0) = Inl (KeyError ''data'')
   \<and> fst (main2 (demo_env 200 (Some (JObject [(''extensions'', JNull)]))) world0) = Inl (KeyError ''data'')
   \<and> files (snd (main (demo_env 200 (Some (JObject [(''extensions'', JNull)]))) world0)) ''schema.graphql''
       = Some ''type Old''"
  using missing_keys_lookup_error
    [of "demo_env 200 (Some (JObject [(''extensions'', JNull)]))"
        "\<lparr>status_code = 200, content = ''body''\<rparr>" "JObject [(''extensions'', JNull)]" world0]
  by (simp add: demo_env_def world0_def)

end
